theory Spec2Isabelle
  imports Main
begin

section \<open>Values handled by the netinstall Config\<close>

text \<open>
  A QVariant as far as Config.cpp looks at it: the code tests the type of a variant
  (\<^verbatim>\<open>QVariant::String\<close>, \<^verbatim>\<open>QVariant::StringList\<close>) and converts with
  \<^verbatim>\<open>toList()\<close>, \<^verbatim>\<open>toString()\<close> and \<^verbatim>\<open>toMap()\<close>. A QVariantMap is kept as an
  association list that is read with \<open>map_of\<close>.
\<close>

datatype QVariant =
    QInvalid
  | QBool bool
  | QInt int
  | QString string
  | QStringList "string list"
  | QVariantList "QVariant list"
  | QVariantMap "(string \<times> QVariant) list"
  | QOther string

type_synonym QVariantMap = "(string \<times> QVariant) list"

definition contains :: "QVariantMap \<Rightarrow> string \<Rightarrow> bool" where
  "contains m k = (map_of m k \<noteq> None)"

text \<open>\<^verbatim>\<open>QMap::value(key)\<close>: a default-constructed (invalid) variant when the key is absent.\<close>

definition map_value :: "QVariantMap \<Rightarrow> string \<Rightarrow> QVariant" where
  "map_value m k = (case map_of m k of None \<Rightarrow> QInvalid | Some v \<Rightarrow> v)"

text \<open>\<^verbatim>\<open>QMap::insert(key, value)\<close>: an existing entry for the key is replaced.\<close>

definition map_insert :: "string \<Rightarrow> QVariant \<Rightarrow> QVariantMap \<Rightarrow> QVariantMap" where
  "map_insert k v m = (k, v) # filter (\<lambda>kv. fst kv \<noteq> k) m"

text \<open>
  \<^verbatim>\<open>QVariant::toList()\<close>: the list of a QVariantList, the strings of a QStringList as
  variants, and the empty list for every other type.
\<close>

fun toList :: "QVariant \<Rightarrow> QVariant list" where
  "toList (QVariantList l) = l"
| "toList (QStringList ss) = map QString ss"
| "toList _ = []"

text \<open>
  Modelled from the spec: \<^verbatim>\<open>utils/Variant.h\<close> (\<^verbatim>\<open>getBool\<close>, \<^verbatim>\<open>getString\<close>,
  \<^verbatim>\<open>getSubMap\<close>) is not among the sources. Each returns the value under the key when
  it is there with the expected type, and the default otherwise (\<open>required\<close> is a bool
  with a default, the scalar \<open>groupsUrl\<close> is a string when present).
\<close>

definition getBool :: "QVariantMap \<Rightarrow> string \<Rightarrow> bool \<Rightarrow> bool" where
  "getBool m k d = (case map_of m k of Some (QBool b) \<Rightarrow> b | _ \<Rightarrow> d)"

definition getString :: "QVariantMap \<Rightarrow> string \<Rightarrow> string" where
  "getString m k = (case map_of m k of Some (QString t) \<Rightarrow> t | _ \<Rightarrow> [])"

definition getSubMap :: "QVariantMap \<Rightarrow> string \<Rightarrow> QVariantMap" where
  "getSubMap m k = (case map_of m k of Some (QVariantMap sub) \<Rightarrow> sub | _ \<Rightarrow> [])"

text \<open>A QUrl is the text it was built from; \<^verbatim>\<open>QUrl()\<close> is the empty URL.\<close>

datatype QUrl = QUrl (url_text: string)

datatype Status =
    Ok
  | FailedBadConfiguration
  | FailedBadData
  | FailedInternalError
  | FailedNetworkError

text \<open>\<^verbatim>\<open>Config::SourceItem\<close>: a URL and a list of embedded group data.\<close>

datatype SourceItem = SourceItem (source_url: QUrl) (source_data: "QVariant list")

datatype TranslatedString = TranslatedString QVariantMap string string

section \<open>The network: reply objects and the request options\<close>

datatype RequestFlag = FollowRedirect | FakeUserAgent

record RequestOptions =
  ro_flags :: "RequestFlag list"
  ro_timeout_seconds :: nat

text \<open>
  A QNetworkReply as Config.cpp reads it. \<open>reply_error = 0\<close> is
  \<^verbatim>\<open>QNetworkReply::NoError\<close>. \<open>reply_deleted\<close> records that \<^verbatim>\<open>deleteLater()\<close> was called.
\<close>

record QNetworkReply =
  reply_url :: QUrl
  reply_isFinished :: bool
  reply_error :: nat
  reply_errorString :: string
  reply_data :: string
  reply_deleted :: bool

definition NoError :: nat where
  "NoError = 0"

type_synonym handle = nat

section \<open>Parsed documents\<close>

datatype YamlNode =
    YNull
  | YScalar string
  | YSequence "YamlNode list"
  | YMap "(string \<times> YamlNode) list"

datatype YamlException = YamlException (what: string) (mark_line: int) (mark_column: int)

section \<open>What Config.cpp calls but does not define\<close>

text \<open>
  The collaborators of Config.cpp are parameters of the model:
  \<^item> \<open>tr\<close>: the translation of a source string;
  \<^item> \<open>url_parses\<close>: whether Qt can parse a non-empty URL text;
  \<^item> \<open>asynchronousGet\<close>: \<^verbatim>\<open>Manager::instance().asynchronousGet\<close>, the new reply object or
    \<open>None\<close> for a null pointer;
  \<^item> \<open>YAML_Load\<close>: \<^verbatim>\<open>YAML::Load\<close>, the parsed node or the exception it throws;
  \<^item> \<open>yamlScalarToVariant\<close>: the conversion of a scalar node;
  \<^item> \<open>rowCount\<close>: the number of rows the PackageModel shows for the data it was given.
\<close>

record externals =
  tr :: "string \<Rightarrow> string"
  url_parses :: "string \<Rightarrow> bool"
  asynchronousGet :: "QUrl \<Rightarrow> RequestOptions \<Rightarrow> QNetworkReply option"
  YAML_Load :: "string \<Rightarrow> YamlException + YamlNode"
  yamlScalarToVariant :: "string \<Rightarrow> QVariant"
  rowCount :: "QVariant list \<Rightarrow> nat"

text \<open>\<^verbatim>\<open>QUrl::isValid()\<close>: the URL is non-empty and well-formed.\<close>

definition isValid :: "externals \<Rightarrow> QUrl \<Rightarrow> bool" where
  "isValid ext u = (url_text u \<noteq> [] \<and> url_parses ext (url_text u))"

section \<open>The state of a Config and of what it acts on\<close>

datatype Signal =
    statusChanged string
  | statusReady
  | sidebarLabelChanged string
  | titleLabelChanged string

datatype LogPart = Text string | Continuation | SubEntry | UrlPart QUrl | Number nat

datatype LogEntry =
    Debug "LogPart list"
  | Warning "LogPart list"
  | YamlExplanation YamlException string string

text \<open>
  The members of Config (\<open>m_...\<close>; \<open>m_model\<close> is the data last handed to
  \<^verbatim>\<open>PackageModel::setupModelData\<close>), followed by what the code acts on: the signals emitted
  so far, the log, the global storage, the reply objects of the network manager (a handle
  is an index into \<open>net_replies\<close>), the requests made through \<^verbatim>\<open>asynchronousGet\<close>, and the
  replies whose \<^verbatim>\<open>finished\<close> signal is connected to \<^verbatim>\<open>receivedGroupData\<close>.
\<close>

record ConfigState =
  m_status :: Status
  m_required :: bool
  m_sidebarLabel :: "TranslatedString option"
  m_titleLabel :: "TranslatedString option"
  m_urls :: "SourceItem list"
  m_reply :: "handle option"
  m_model :: "QVariant list"
  emitted :: "Signal list"
  logged :: "LogEntry list"
  globalStorage :: QVariantMap
  net_replies :: "QNetworkReply list"
  net_requests :: "(QUrl \<times> RequestOptions) list"
  connected :: "handle list"

definition emit :: "Signal \<Rightarrow> ConfigState \<Rightarrow> ConfigState" where
  "emit sig s = s\<lparr>emitted := emitted s @ [sig]\<rparr>"

text \<open>
  Modelled from the spec: \<^verbatim>\<open>utils/Logger.h\<close> (\<^verbatim>\<open>cDebug\<close>, \<^verbatim>\<open>cWarning\<close>) is not among the
  sources. A line of the log is kept as its level and the parts streamed into it.
\<close>

definition cDebug :: "LogPart list \<Rightarrow> ConfigState \<Rightarrow> ConfigState" where
  "cDebug ps s = s\<lparr>logged := logged s @ [Debug ps]\<rparr>"

definition cWarning :: "LogPart list \<Rightarrow> ConfigState \<Rightarrow> ConfigState" where
  "cWarning ps s = s\<lparr>logged := logged s @ [Warning ps]\<rparr>"

text \<open>
  Modelled from the spec: \<^verbatim>\<open>CalamaresUtils::explainYamlException\<close> of \<^verbatim>\<open>utils/Yaml.h\<close> is
  not among the sources. It logs the payload and the context the parser reported; the
  entry keeps the exception, the payload and the label of the call.
\<close>

definition explainYamlException :: "YamlException \<Rightarrow> string \<Rightarrow> string \<Rightarrow> ConfigState \<Rightarrow> ConfigState" where
  "explainYamlException e yamlData label s = s\<lparr>logged := logged s @ [YamlExplanation e yamlData label]\<rparr>"

text \<open>The reply object behind a pointer, if the pointer is one the network manager handed out.\<close>

definition reply_at :: "ConfigState \<Rightarrow> handle \<Rightarrow> QNetworkReply option" where
  "reply_at s h = (if h < length (net_replies s) then Some (net_replies s ! h) else None)"

section \<open>Status\<close>

definition status :: "externals \<Rightarrow> ConfigState \<Rightarrow> string" where
  "status ext s =
     (case m_status s of
        Ok \<Rightarrow> []
      | FailedBadConfiguration \<Rightarrow> tr ext ''Network Installation. (Disabled: Incorrect configuration)''
      | FailedBadData \<Rightarrow> tr ext ''Network Installation. (Disabled: Received invalid groups data)''
      | FailedInternalError \<Rightarrow> tr ext ''Network Installation. (Disabled: internal error)''
      | FailedNetworkError \<Rightarrow>
          tr ext ''Network Installation. (Disabled: Unable to fetch package lists, check your network connection)'')"

definition setStatus :: "externals \<Rightarrow> Status \<Rightarrow> ConfigState \<Rightarrow> ConfigState" where
  "setStatus ext st s = (let s1 = s\<lparr>m_status := st\<rparr> in emit (statusChanged (status ext s1)) s1)"

section \<open>Sources\<close>

definition makeSourceItem :: "QVariantMap \<Rightarrow> string \<Rightarrow> SourceItem" where
  "makeSourceItem configurationMap groupsUrl =
     (if groupsUrl = ''local''
      then SourceItem (QUrl []) (toList (map_value configurationMap ''groups''))
      else SourceItem (QUrl groupsUrl) [])"

section \<open>Loading group data\<close>

text \<open>
  Modelled from the spec: \<^verbatim>\<open>PackageModel\<close> (\<^verbatim>\<open>setupModelData\<close>) is not among the sources.
  Publishing hands the sequence of records to the model, which owns it from then on.
\<close>

definition setupModelData :: "QVariant list \<Rightarrow> ConfigState \<Rightarrow> ConfigState" where
  "setupModelData groupData s = s\<lparr>m_model := groupData\<rparr>"

text \<open>\<^verbatim>\<open>Config::loadGroupList(const QVariantList&)\<close>\<close>

definition loadGroupList_data :: "QVariant list \<Rightarrow> ConfigState \<Rightarrow> ConfigState" where
  "loadGroupList_data groupData s = emit statusReady (setupModelData groupData s)"

text \<open>
  \<^verbatim>\<open>Config::loadGroupList(const QUrl&)\<close>. The branch for an invalid URL sets the status and
  goes on; the request is made in every case, and a reply that is not null is stored in
  \<open>m_reply\<close> and connected.
\<close>

definition requestOptions :: RequestOptions where
  "requestOptions = \<lparr>ro_flags = [FakeUserAgent, FollowRedirect], ro_timeout_seconds = 30\<rparr>"

definition loadGroupList_url :: "externals \<Rightarrow> QUrl \<Rightarrow> ConfigState \<Rightarrow> ConfigState" where
  "loadGroupList_url ext url s =
     (let s1 = (if \<not> isValid ext url then setStatus ext FailedBadConfiguration s else s);
          s2 = cDebug [Text ''NetInstall loading groups from'', UrlPart url] s1;
          s3 = s2\<lparr>net_requests := net_requests s2 @ [(url, requestOptions)]\<rparr>
      in case asynchronousGet ext url requestOptions of
           None \<Rightarrow>
             setStatus ext FailedBadConfiguration
               (cDebug [Continuation, Text ''request failed immediately.''] s3)
         | Some reply \<Rightarrow>
             (let h = length (net_replies s3)
              in s3\<lparr>net_replies := net_replies s3 @ [reply],
                    m_reply := Some h,
                    connected := connected s3 @ [h]\<rparr>))"

section \<open>Receiving the reply\<close>

text \<open>
  Modelled from the spec: \<^verbatim>\<open>utils/Yaml.h\<close> (\<^verbatim>\<open>yamlSequenceToVariant\<close>,
  \<^verbatim>\<open>yamlMapToVariant\<close>) is not among the sources. The elements of a sequence are the
  records, in order; a mapping becomes a QVariantMap, key by key.
\<close>

primrec yamlToVariant :: "externals \<Rightarrow> YamlNode \<Rightarrow> QVariant" where
  "yamlToVariant ext YNull = QInvalid"
| "yamlToVariant ext (YScalar t) = yamlScalarToVariant ext t"
| "yamlToVariant ext (YSequence ns) = QVariantList (map (yamlToVariant ext) ns)"
| "yamlToVariant ext (YMap kvs) =
     QVariantMap (foldl (\<lambda>m kv. map_insert (fst kv) (snd kv) m) []
                    (map (map_prod id (yamlToVariant ext)) kvs))"

definition yamlSequenceToVariant :: "externals \<Rightarrow> YamlNode list \<Rightarrow> QVariant list" where
  "yamlSequenceToVariant ext ns = map (yamlToVariant ext) ns"

definition yamlMapToVariant :: "externals \<Rightarrow> (string \<times> YamlNode) list \<Rightarrow> QVariantMap" where
  "yamlMapToVariant ext kvs =
     foldl (\<lambda>m kv. map_insert (fst kv) (snd kv) m) [] (map (map_prod id (yamlToVariant ext)) kvs)"

text \<open>
  Modelled from the spec: \<^verbatim>\<open>cqDeleter\<close> of \<^verbatim>\<open>utils/RAII.h\<close> is not among the sources. It
  releases the handle when the scope of \<^verbatim>\<open>receivedGroupData\<close> is left: the reply is handed
  to \<^verbatim>\<open>deleteLater()\<close> and the Config has no outstanding handle any more.
\<close>

definition cqDeleter :: "ConfigState \<Rightarrow> ConfigState" where
  "cqDeleter s =
     (case m_reply s of
        None \<Rightarrow> s
      | Some h \<Rightarrow>
          s\<lparr>net_replies := (net_replies s)[h := (net_replies s ! h)\<lparr>reply_deleted := True\<rparr>],
            m_reply := None\<rparr>)"

text \<open>\<^verbatim>\<open>m_reply->readAll()\<close> takes the data out of the reply object.\<close>

definition readAll :: "handle \<Rightarrow> ConfigState \<Rightarrow> ConfigState" where
  "readAll h s = s\<lparr>net_replies := (net_replies s)[h := (net_replies s ! h)\<lparr>reply_data := []\<rparr>]\<rparr>"

text \<open>\<^verbatim>\<open>yamlData.constData()\<close> is read as a C string: it ends at the first NUL byte.\<close>

definition constData :: "string \<Rightarrow> string" where
  "constData yamlData = takeWhile (\<lambda>c. c \<noteq> CHR 0x00) yamlData"

text \<open>
  The body of the \<^verbatim>\<open>try\<close> block of \<^verbatim>\<open>receivedGroupData\<close>: \<open>Inl\<close> is the exception that
  \<^verbatim>\<open>YAML::Load\<close> throws.
\<close>

definition receivedGroupData_try :: "externals \<Rightarrow> string \<Rightarrow> ConfigState \<Rightarrow> YamlException + ConfigState" where
  "receivedGroupData_try ext yamlData s =
     (case YAML_Load ext (constData yamlData) of
        Inl e \<Rightarrow> Inl e
      | Inr groups \<Rightarrow>
          (let s1 = (case groups of
                       YSequence ns \<Rightarrow> loadGroupList_data (yamlSequenceToVariant ext ns) s
                     | YMap kvs \<Rightarrow>
                         loadGroupList_data (toList (map_value (yamlMapToVariant ext kvs) ''groups'')) s
                     | _ \<Rightarrow> cWarning [Text ''NetInstall groups data does not form a sequence.''] s)
           in Inr (if rowCount ext (m_model s1) < 1
                   then cWarning [Text ''NetInstall groups data was empty.''] s1
                   else s1)))"

text \<open>
  \<^verbatim>\<open>Config::receivedGroupData()\<close>. The result is \<open>None\<close> only when \<open>m_reply\<close> is a pointer
  that the network manager never handed out (the C++ is undefined there). The two early
  returns come before the \<^verbatim>\<open>cqDeleter\<close> is declared; every later path runs it on leaving.
\<close>

definition receivedGroupData :: "externals \<Rightarrow> ConfigState \<Rightarrow> ConfigState option" where
  "receivedGroupData ext s =
     (case m_reply s of
        None \<Rightarrow>
          Some (setStatus ext FailedInternalError
                  (cWarning [Text ''NetInstall data called too early.''] s))
      | Some h \<Rightarrow>
          (case reply_at s h of
             None \<Rightarrow> None
           | Some r \<Rightarrow>
               if \<not> reply_isFinished r
               then Some (setStatus ext FailedInternalError
                            (cWarning [Text ''NetInstall data called too early.''] s))
               else
                 (let s1 = cDebug [Text ''NetInstall group data received'',
                                   Number (length (reply_data r)),
                                   Text ''bytes from'', UrlPart (reply_url r)] s
                  in if reply_error r \<noteq> NoError
                     then
                       Some (cqDeleter
                         (setStatus ext FailedNetworkError
                           (cDebug [SubEntry, Text ''Request for url: '',
                                    Text (url_text (reply_url r)),
                                    Text '' failed with: '', Text (reply_errorString r)]
                             (cDebug [SubEntry, Text ''Netinstall reply error: '',
                                      Number (reply_error r)]
                               (cWarning [Text ''unable to fetch netinstall package lists.''] s1)))))
                     else
                       (let yamlData = reply_data r;
                            s2 = readAll h s1
                        in Some (cqDeleter
                             (case receivedGroupData_try ext yamlData s2 of
                                Inr s3 \<Rightarrow> s3
                              | Inl e \<Rightarrow>
                                  setStatus ext FailedBadData
                                    (explainYamlException e yamlData ''netinstall groups data'' s2)))))))"

section \<open>Configuration\<close>

text \<open>
  Modelled from the spec: \<^verbatim>\<open>Config.h\<close> (\<^verbatim>\<open>setRequired\<close>) is not among the sources. The
  flag is stored and nothing else.
\<close>

definition setRequired :: "bool \<Rightarrow> ConfigState \<Rightarrow> ConfigState" where
  "setRequired r s = s\<lparr>m_required := r\<rparr>"

text \<open>
  Modelled from the spec: \<^verbatim>\<open>GlobalStorage\<close> is not among the sources. It is the shared
  key/value store; \<^verbatim>\<open>insert\<close> puts a value under a key.
\<close>

definition globalStorage_insert :: "string \<Rightarrow> QVariant \<Rightarrow> ConfigState \<Rightarrow> ConfigState" where
  "globalStorage_insert k v s = s\<lparr>globalStorage := map_insert k v (globalStorage s)\<rparr>"

definition className :: string where
  "className = ''NetInstallViewStep''"

definition appendSource :: "QVariantMap \<Rightarrow> ConfigState \<Rightarrow> string \<Rightarrow> ConfigState" where
  "appendSource configurationMap s g = s\<lparr>m_urls := m_urls s @ [makeSourceItem configurationMap g]\<rparr>"

definition setConfigurationMap :: "externals \<Rightarrow> QVariantMap \<Rightarrow> ConfigState \<Rightarrow> ConfigState" where
  "setConfigurationMap ext configurationMap s =
     (let s1 = setRequired (getBool configurationMap ''required'' False) s;
          label = getSubMap configurationMap ''label'';
          s2 = (if contains label ''sidebar''
                then s1\<lparr>m_sidebarLabel := Some (TranslatedString label ''sidebar'' className)\<rparr>
                else s1);
          s3 = (if contains label ''title''
                then s2\<lparr>m_titleLabel := Some (TranslatedString label ''title'' className)\<rparr>
                else s2);
          s4 = (case map_value configurationMap ''groupsUrl'' of
                  QString g \<Rightarrow> appendSource configurationMap s3 g
                | QStringList ss \<Rightarrow> foldl (appendSource configurationMap) s3 ss
                | _ \<Rightarrow> s3);
          groupsUrl = getString configurationMap ''groupsUrl''
      in if groupsUrl \<noteq> []
         then
           (let s5 = globalStorage_insert ''groupsUrl'' (QString groupsUrl) s4
            in if groupsUrl = ''local''
               then loadGroupList_data (toList (map_value configurationMap ''groups'')) s5
               else loadGroupList_url ext (QUrl groupsUrl) s5)
         else s4)"

section \<open>Outstanding replies\<close>

text \<open>
  The handles of the replies that were handed out by the network manager and not yet
  given to \<^verbatim>\<open>deleteLater()\<close>, in the order of their requests.
\<close>

definition outstanding :: "ConfigState \<Rightarrow> handle list" where
  "outstanding s = map fst (filter (\<lambda>hr. \<not> reply_deleted (snd hr)) (enumerate 0 (net_replies s)))"

section \<open>A concrete environment\<close>

text \<open>
  One choice of the collaborators, for evaluating the operations: no translation is
  installed, a URL text parses when it has no space, every request is started, and the
  parser knows a few documents.
\<close>

definition example_reply :: "QUrl \<Rightarrow> QNetworkReply" where
  "example_reply url =
     \<lparr>reply_url = url, reply_isFinished = False, reply_error = NoError,
      reply_errorString = [], reply_data = [], reply_deleted = False\<rparr>"

definition example_Load :: "string \<Rightarrow> YamlException + YamlNode" where
  "example_Load t =
     (if t = ''[]'' then Inr (YSequence [])
      else if t = ''- a'' then Inr (YSequence [YScalar ''a''])
      else if t = ''x: 1'' then Inr (YMap [(''x'', YScalar ''1'')])
      else if t = ''groups: [a]'' then Inr (YMap [(''groups'', YSequence [YScalar ''a''])])
      else if t = ''x'' then Inr (YScalar ''x'')
      else if t = [] then Inr YNull
      else Inl (YamlException ''bad'' 0 0))"

definition example_externals :: externals where
  "example_externals =
     \<lparr>tr = (\<lambda>t. t),
      url_parses = (\<lambda>t. CHR '' '' \<notin> set t),
      asynchronousGet = (\<lambda>url opts. Some (example_reply url)),
      YAML_Load = example_Load,
      yamlScalarToVariant = QString,
      rowCount = length\<rparr>"

text \<open>
  Modelled from the spec: \<^verbatim>\<open>Config.h\<close> (the initial values of the members) is not among
  the sources. A Config that was just constructed has the initial status \<open>Ok\<close>, no
  outstanding handle, no sources, no labels and an empty model; nothing was emitted,
  logged, stored or requested yet.
\<close>

definition initial_state :: ConfigState where
  "initial_state =
     \<lparr>m_status = Ok, m_required = False, m_sidebarLabel = None, m_titleLabel = None,
      m_urls = [], m_reply = None, m_model = [], emitted = [], logged = [],
      globalStorage = [], net_replies = [], net_requests = [], connected = []\<rparr>"

definition example_url :: QUrl where
  "example_url = QUrl ''http://example.org/netinstall.yaml''"

text \<open>
  The state of a new Config after one request that the network manager answered with
  the reply object \<open>reply\<close> (handle 0), and three such reply objects: one that
  finished with a payload, one that finished with error 3 (host not found); the reply
  \<open>example_reply\<close> itself has not finished.
\<close>

definition pending_state :: "QNetworkReply \<Rightarrow> ConfigState" where
  "pending_state reply =
     initial_state\<lparr>m_reply := Some 0, net_replies := [reply], connected := [0],
                   net_requests := [(reply_url reply, requestOptions)]\<rparr>"

definition finished_reply :: "string \<Rightarrow> QNetworkReply" where
  "finished_reply payload =
     (example_reply example_url)\<lparr>reply_isFinished := True, reply_data := payload\<rparr>"

definition failed_reply :: QNetworkReply where
  "failed_reply =
     (example_reply example_url)\<lparr>reply_isFinished := True, reply_error := 3,
                                  reply_errorString := ''Host example.org not found''\<rparr>"

section \<open>The status and its description\<close>

text \<open>
  C8. The description is a function of the status alone, defined for each of the five
  states: \<open>Ok\<close> gives the empty string, and each failure state gives the translation
  of its own source text, which is not empty when the translation of a non-empty text is
  not empty, and differs from the description of every other state when the translation
  is injective as well. \<^verbatim>\<open>setStatus\<close> stores the state and emits exactly one
  \<^verbatim>\<open>statusChanged\<close> signal, which carries the description of the state just set.
\<close>

theorem status_description_and_setStatus:
  "(m_status s = Ok \<longrightarrow> status ext s = [])
   \<and> ((\<forall>t. t \<noteq> [] \<longrightarrow> tr ext t \<noteq> []) \<longrightarrow> m_status s \<noteq> Ok \<longrightarrow> status ext s \<noteq> [])
   \<and> (m_status s' = m_status s \<longrightarrow> status ext s' = status ext s)
   \<and> ((\<forall>t. t \<noteq> [] \<longrightarrow> tr ext t \<noteq> []) \<longrightarrow> inj (tr ext) \<longrightarrow>
        status ext s' = status ext s \<longrightarrow> m_status s' = m_status s)
   \<and> setStatus ext st s =
       s\<lparr>m_status := st,
         emitted := emitted s @ [statusChanged (status ext (s\<lparr>m_status := st\<rparr>))]\<rparr>"
proof -
  have ok: "m_status s = Ok \<longrightarrow> status ext s = []"
    by (simp add: status_def)
  have nonempty: "(\<forall>t. t \<noteq> [] \<longrightarrow> tr ext t \<noteq> []) \<longrightarrow> m_status s \<noteq> Ok \<longrightarrow> status ext s \<noteq> []"
    by (cases "m_status s") (simp_all add: status_def)
  have fixed: "m_status s' = m_status s \<longrightarrow> status ext s' = status ext s"
    by (simp add: status_def)
  have own: "(\<forall>t. t \<noteq> [] \<longrightarrow> tr ext t \<noteq> []) \<longrightarrow> inj (tr ext) \<longrightarrow>
        status ext s' = status ext s \<longrightarrow> m_status s' = m_status s"
  proof (intro impI)
    assume ne: "\<forall>t. t \<noteq> [] \<longrightarrow> tr ext t \<noteq> []" and i: "inj (tr ext)"
      and eq: "status ext s' = status ext s"
    have ne1: "\<And>t. t \<noteq> [] \<Longrightarrow> (tr ext t = []) = False"
      using ne by simp
    have ne2: "\<And>t. t \<noteq> [] \<Longrightarrow> ([] = tr ext t) = False"
      using ne by (metis)
    have i': "\<And>a b. (tr ext a = tr ext b) = (a = b)"
      using i by (simp add: inj_eq)
    show "m_status s' = m_status s"
      using eq
      by (cases "m_status s"; cases "m_status s'"; simp add: status_def ne1 ne2 i')
  qed
  have set: "setStatus ext st s =
       s\<lparr>m_status := st,
         emitted := emitted s @ [statusChanged (status ext (s\<lparr>m_status := st\<rparr>))]\<rparr>"
    by (simp add: setStatus_def emit_def Let_def)
  from ok nonempty fixed own set show ?thesis by blast
qed

theorem status_description_and_setStatus_witness:
  "status example_externals initial_state = []
   \<and> status example_externals (initial_state\<lparr>m_status := FailedBadData\<rparr>) \<noteq> []
   \<and> status example_externals (initial_state\<lparr>m_status := FailedBadData\<rparr>)
       \<noteq> status example_externals initial_state
   \<and> emitted (setStatus example_externals FailedNetworkError initial_state) =
       [statusChanged (status example_externals (initial_state\<lparr>m_status := FailedNetworkError\<rparr>))]"
proof -
  have ne: "\<forall>t. t \<noteq> [] \<longrightarrow> tr example_externals t \<noteq> []"
    by (simp add: example_externals_def)
  have i: "inj (tr example_externals)"
    by (simp add: example_externals_def inj_def)
  have a: "m_status initial_state = Ok"
    and b: "m_status (initial_state\<lparr>m_status := FailedBadData\<rparr>) \<noteq> Ok"
    and c: "m_status (initial_state\<lparr>m_status := FailedBadData\<rparr>) \<noteq> m_status initial_state"
    and d: "emitted initial_state = []"
    by (simp_all add: initial_state_def)
  note t1 = status_description_and_setStatus
    [where s = initial_state and ext = example_externals
       and s' = "initial_state\<lparr>m_status := FailedBadData\<rparr>" and st = FailedNetworkError]
  note t2 = status_description_and_setStatus
    [where s = "initial_state\<lparr>m_status := FailedBadData\<rparr>" and ext = example_externals
       and s' = initial_state and st = FailedNetworkError]
  have 1: "status example_externals initial_state = []"
    using t1 a by blast
  have 2: "status example_externals (initial_state\<lparr>m_status := FailedBadData\<rparr>) \<noteq> []"
    using t2 ne b by blast
  have 3: "status example_externals (initial_state\<lparr>m_status := FailedBadData\<rparr>)
       \<noteq> status example_externals initial_state"
    using t1 ne i c by blast
  have 4: "emitted (setStatus example_externals FailedNetworkError initial_state) =
       [statusChanged (status example_externals (initial_state\<lparr>m_status := FailedNetworkError\<rparr>))]"
    using t1 d by simp
  from 1 2 3 4 show ?thesis by blast
qed

section \<open>Sources are exclusive\<close>

text \<open>
  C9. For every configuration map and every string, \<^verbatim>\<open>makeSourceItem\<close> gives for
  \<open>local\<close> the embedded \<open>groups\<close> list and the empty URL, and for any other string
  that string as URL with no embedded data; the URL and the data are never both
  populated.
\<close>

theorem makeSourceItem_exclusive:
  "(groupsUrl = ''local'' \<longrightarrow>
      makeSourceItem configurationMap groupsUrl =
        SourceItem (QUrl []) (toList (map_value configurationMap ''groups'')))
   \<and> (groupsUrl \<noteq> ''local'' \<longrightarrow>
      makeSourceItem configurationMap groupsUrl = SourceItem (QUrl groupsUrl) [])
   \<and> \<not> (source_url (makeSourceItem configurationMap groupsUrl) \<noteq> QUrl []
        \<and> source_data (makeSourceItem configurationMap groupsUrl) \<noteq> [])"
  by (simp add: makeSourceItem_def)

theorem makeSourceItem_exclusive_witness:
  "makeSourceItem [(''groups'', QVariantList [QString ''base''])] ''local'' =
     SourceItem (QUrl []) [QString ''base'']
   \<and> makeSourceItem [(''groups'', QVariantList [QString ''base''])] ''http://example.org/netinstall.yaml'' =
     SourceItem (QUrl ''http://example.org/netinstall.yaml'') []"
  using makeSourceItem_exclusive [of "''local''" "[(''groups'', QVariantList [QString ''base''])]"]
    makeSourceItem_exclusive [of "''http://example.org/netinstall.yaml''"
      "[(''groups'', QVariantList [QString ''base''])]"]
  by (simp add: map_value_def)

section \<open>Configuration: a list of URLs, and the local source\<close>








text \<open>
  C5. When the scalar \<open>groupsUrl\<close> is \<open>local\<close> and \<open>groups\<close> is the list \<open>G\<close>,
  \<^verbatim>\<open>setConfigurationMap\<close> hands exactly \<open>G\<close> to the model, leaves the status as it was
  (so \<open>Ok\<close> stays \<open>Ok\<close>), emits \<^verbatim>\<open>statusReady\<close> once and no other signal, and makes no
  request: the requests, the replies and the outstanding handle are unchanged.
\<close>

theorem setConfigurationMap_local:
  assumes "map_of configurationMap ''groupsUrl'' = Some (QString ''local'')"
    and "map_of configurationMap ''groups'' = Some (QVariantList G)"
  shows "m_model (setConfigurationMap ext configurationMap s) = G
         \<and> m_status (setConfigurationMap ext configurationMap s) = m_status s
         \<and> emitted (setConfigurationMap ext configurationMap s) = emitted s @ [statusReady]
         \<and> net_requests (setConfigurationMap ext configurationMap s) = net_requests s
         \<and> net_replies (setConfigurationMap ext configurationMap s) = net_replies s
         \<and> m_reply (setConfigurationMap ext configurationMap s) = m_reply s
         \<and> connected (setConfigurationMap ext configurationMap s) = connected s"
proof -
  have v: "map_value configurationMap ''groupsUrl'' = QString ''local''"
    using assms(1) by (simp add: map_value_def)
  have g: "getString configurationMap ''groupsUrl'' = ''local''"
    using assms(1) by (simp add: getString_def)
  have l: "toList (map_value configurationMap ''groups'') = G"
    using assms(2) by (simp add: map_value_def)
  show ?thesis
    unfolding setConfigurationMap_def Let_def v g l
    by (simp add: loadGroupList_data_def setupModelData_def globalStorage_insert_def emit_def
        appendSource_def setRequired_def)
qed

theorem setConfigurationMap_local_witness:
  "m_model (setConfigurationMap example_externals
      [(''groupsUrl'', QString ''local''), (''groups'', QVariantList [QString ''base''])]
      initial_state) = [QString ''base'']
   \<and> m_status (setConfigurationMap example_externals
      [(''groupsUrl'', QString ''local''), (''groups'', QVariantList [QString ''base''])]
      initial_state) = Ok
   \<and> emitted (setConfigurationMap example_externals
      [(''groupsUrl'', QString ''local''), (''groups'', QVariantList [QString ''base''])]
      initial_state) = [statusReady]
   \<and> net_requests (setConfigurationMap example_externals
      [(''groupsUrl'', QString ''local''), (''groups'', QVariantList [QString ''base''])]
      initial_state) = []"
proof -
  have h1: "map_of [(''groupsUrl'', QString ''local''), (''groups'', QVariantList [QString ''base''])]
      ''groupsUrl'' = Some (QString ''local'')"
    by simp
  have h2: "map_of [(''groupsUrl'', QString ''local''), (''groups'', QVariantList [QString ''base''])]
      ''groups'' = Some (QVariantList [QString ''base''])"
    by simp
  show ?thesis
    using setConfigurationMap_local [OF h1 h2, of example_externals initial_state]
    by (simp add: initial_state_def)
qed

section \<open>Evaluating the concrete environment\<close>

lemma example_get:
  "asynchronousGet example_externals url requestOptions = Some (example_reply url)"
  by (simp add: example_externals_def)

lemma first_fetch:
  "m_reply (loadGroupList_url example_externals example_url initial_state) = Some 0"
  "net_replies (loadGroupList_url example_externals example_url initial_state) =
     [example_reply example_url]"
  "connected (loadGroupList_url example_externals example_url initial_state) = [0]"
  "net_requests (loadGroupList_url example_externals example_url initial_state) =
     [(example_url, requestOptions)]"
  "m_status (loadGroupList_url example_externals example_url initial_state) = Ok"
  "emitted (loadGroupList_url example_externals example_url initial_state) = []"
  "m_model (loadGroupList_url example_externals example_url initial_state) = []"
  by (simp_all add: loadGroupList_url_def Let_def example_get cDebug_def isValid_def
      example_url_def example_externals_def initial_state_def)

lemma pending_state_simps:
  "m_reply (pending_state reply) = Some 0"
  "reply_at (pending_state reply) 0 = Some reply"
  "m_status (pending_state reply) = Ok"
  "emitted (pending_state reply) = []"
  "m_model (pending_state reply) = []"
  "logged (pending_state reply) = []"
  "net_replies (pending_state reply) = [reply]"
  by (simp_all add: pending_state_def initial_state_def reply_at_def)

lemma finished_reply_simps:
  "reply_isFinished (finished_reply payload)"
  "reply_error (finished_reply payload) = NoError"
  "reply_data (finished_reply payload) = payload"
  by (simp_all add: finished_reply_def example_reply_def)

lemma failed_reply_simps:
  "reply_isFinished failed_reply"
  "reply_error failed_reply \<noteq> NoError"
  "reply_errorString failed_reply = ''Host example.org not found''"
  "url_text (reply_url failed_reply) = ''http://example.org/netinstall.yaml''"
  by (simp_all add: failed_reply_def example_reply_def NoError_def example_url_def)

lemma example_Load_simps:
  "YAML_Load example_externals (constData ''x: 1'') = Inr (YMap [(''x'', YScalar ''1'')])"
  "YAML_Load example_externals (constData ''x'') = Inr (YScalar ''x'')"
  "YAML_Load example_externals (constData ''{'') = Inl (YamlException ''bad'' 0 0)"
  by (simp_all add: example_externals_def example_Load_def constData_def)

section \<open>Starting a request\<close>

lemma loadGroupList_url_started:
  assumes "asynchronousGet ext url requestOptions = Some reply"
  shows "net_replies (loadGroupList_url ext url s) = net_replies s @ [reply]"
    and "m_reply (loadGroupList_url ext url s) = Some (length (net_replies s))"
    and "connected (loadGroupList_url ext url s) = connected s @ [length (net_replies s)]"
    and "net_requests (loadGroupList_url ext url s) = net_requests s @ [(url, requestOptions)]"
  using assms
  by (simp_all add: loadGroupList_url_def Let_def setStatus_def cDebug_def emit_def)

text \<open>
  The request is made for every URL, valid or not; for an invalid URL the status is
  \<open>FailedBadConfiguration\<close> afterwards, whatever the network manager answers.
\<close>

lemma loadGroupList_url_always_requests:
  "net_requests (loadGroupList_url ext url s) = net_requests s @ [(url, requestOptions)]"
  by (simp add: loadGroupList_url_def Let_def setStatus_def cDebug_def emit_def
      split: option.splits)

lemma loadGroupList_url_invalid_status:
  "\<not> isValid ext url \<Longrightarrow> m_status (loadGroupList_url ext url s) = FailedBadConfiguration"
  by (simp add: loadGroupList_url_def Let_def setStatus_def cDebug_def emit_def
      split: option.splits)

lemma outstanding_append:
  "net_replies s' = net_replies s @ [reply] \<Longrightarrow>
   outstanding s' = outstanding s @ (if reply_deleted reply then [] else [length (net_replies s)])"
  by (simp add: outstanding_def enumerate_append_eq)

text \<open>
  C1. The claim is that an invalid URL starts no request and creates no handle.
  \<^verbatim>\<open>loadGroupList(const QUrl&)\<close> sets \<open>FailedBadConfiguration\<close> for an invalid URL
  and then goes on to the request, since the branch has no \<^verbatim>\<open>return\<close>. Evaluated at
  the empty URL, with a network manager that hands out a reply: the status is
  \<open>FailedBadConfiguration\<close>, and yet the request was made, the reply is stored as the
  outstanding handle and it is connected to \<^verbatim>\<open>receivedGroupData\<close>.
\<close>

theorem loadGroupList_url_invalid_still_requests:
  "\<not> isValid example_externals (QUrl [])
   \<and> m_status (loadGroupList_url example_externals (QUrl []) initial_state) = FailedBadConfiguration
   \<and> net_requests (loadGroupList_url example_externals (QUrl []) initial_state) =
       [(QUrl [], requestOptions)]
   \<and> net_replies (loadGroupList_url example_externals (QUrl []) initial_state) =
       [example_reply (QUrl [])]
   \<and> m_reply (loadGroupList_url example_externals (QUrl []) initial_state) = Some 0
   \<and> connected (loadGroupList_url example_externals (QUrl []) initial_state) = [0]"
  by (simp add: loadGroupList_url_def Let_def example_get cDebug_def setStatus_def emit_def
      isValid_def initial_state_def)

text \<open>
  C2, as the code has it. A Config refers to at most one handle, \<open>m_reply\<close>. A
  request that the network manager starts is never rejected: its handle becomes
  \<open>m_reply\<close> whatever \<open>m_reply\<close> was, the earlier reply objects are left as they
  were (neither cancelled nor released) and stay connected, and the outstanding replies
  are the earlier ones followed by the new one.
\<close>

theorem loadGroupList_url_overwrites_handle:
  assumes "asynchronousGet ext url requestOptions = Some reply"
  shows "m_reply (loadGroupList_url ext url s) = Some (length (net_replies s))
         \<and> net_replies (loadGroupList_url ext url s) = net_replies s @ [reply]
         \<and> connected (loadGroupList_url ext url s) = connected s @ [length (net_replies s)]
         \<and> net_requests (loadGroupList_url ext url s) = net_requests s @ [(url, requestOptions)]
         \<and> outstanding (loadGroupList_url ext url s) =
             outstanding s @ (if reply_deleted reply then [] else [length (net_replies s)])"
  using loadGroupList_url_started [OF assms, of s]
    outstanding_append [OF loadGroupList_url_started(1) [OF assms, of s]]
  by simp

theorem loadGroupList_url_overwrites_handle_witness:
  "m_reply (loadGroupList_url example_externals (QUrl ''http://example.org/other.yaml'')
      (loadGroupList_url example_externals example_url initial_state)) = Some 1
   \<and> net_replies (loadGroupList_url example_externals (QUrl ''http://example.org/other.yaml'')
      (loadGroupList_url example_externals example_url initial_state)) =
       [example_reply example_url, example_reply (QUrl ''http://example.org/other.yaml'')]
   \<and> connected (loadGroupList_url example_externals (QUrl ''http://example.org/other.yaml'')
      (loadGroupList_url example_externals example_url initial_state)) = [0, 1]"
  using loadGroupList_url_overwrites_handle
    [OF example_get, of "QUrl ''http://example.org/other.yaml''"
       "loadGroupList_url example_externals example_url initial_state"]
  by (simp add: first_fetch)

text \<open>
  C2 as stated fails: after two requests in a row, two replies are outstanding, and the
  Config refers to the second only; the first was neither released nor kept.
\<close>

theorem second_fetch_loses_first_handle:
  "outstanding (loadGroupList_url example_externals example_url initial_state) = [0]
   \<and> m_reply (loadGroupList_url example_externals example_url initial_state) = Some 0
   \<and> outstanding (loadGroupList_url example_externals (QUrl ''http://example.org/other.yaml'')
        (loadGroupList_url example_externals example_url initial_state)) = [0, 1]
   \<and> m_reply (loadGroupList_url example_externals (QUrl ''http://example.org/other.yaml'')
        (loadGroupList_url example_externals example_url initial_state)) = Some 1"
proof -
  have 1: "outstanding (loadGroupList_url example_externals example_url initial_state) = [0]"
    by (simp add: outstanding_def first_fetch example_reply_def)
  note second = loadGroupList_url_started
    [OF example_get, of "QUrl ''http://example.org/other.yaml''"
       "loadGroupList_url example_externals example_url initial_state"]
  have 2: "outstanding (loadGroupList_url example_externals (QUrl ''http://example.org/other.yaml'')
        (loadGroupList_url example_externals example_url initial_state)) = [0, 1]"
    by (simp add: outstanding_def second(1) first_fetch example_reply_def)
  have 3: "m_reply (loadGroupList_url example_externals (QUrl ''http://example.org/other.yaml'')
        (loadGroupList_url example_externals example_url initial_state)) = Some 1"
    by (simp add: second(2) first_fetch)
  from 1 2 3 first_fetch(1) show ?thesis by simp
qed

section \<open>Completion that comes too early\<close>

lemma receivedGroupData_too_early:
  assumes "m_reply s = None \<or> (\<exists>h r. m_reply s = Some h \<and> reply_at s h = Some r \<and> \<not> reply_isFinished r)"
  shows "receivedGroupData ext s =
           Some (setStatus ext FailedInternalError
                  (cWarning [Text ''NetInstall data called too early.''] s))"
  using assms by (auto simp add: receivedGroupData_def)

text \<open>
  C3, as the code has it. When \<^verbatim>\<open>receivedGroupData\<close> runs with no pending handle, or
  with a handle that is not finished, the status becomes \<open>FailedInternalError\<close>, one
  \<^verbatim>\<open>statusChanged\<close> is emitted and no \<^verbatim>\<open>statusReady\<close>, a warning is logged and nothing
  else changes: the model is untouched and the handle, if there is one, is left as it
  is, still pending and not released.
\<close>

theorem receivedGroupData_too_early_keeps_handle:
  assumes "m_reply s = None \<or> (\<exists>h r. m_reply s = Some h \<and> reply_at s h = Some r \<and> \<not> reply_isFinished r)"
  shows "receivedGroupData ext s =
           Some (s\<lparr>m_status := FailedInternalError,
                   emitted := emitted s @
                     [statusChanged (tr ext ''Network Installation. (Disabled: internal error)'')],
                   logged := logged s @ [Warning [Text ''NetInstall data called too early.'']]\<rparr>)
         \<and> (\<exists>s'. receivedGroupData ext s = Some s'
                \<and> m_status s' = FailedInternalError
                \<and> emitted s' = emitted s @
                     [statusChanged (tr ext ''Network Installation. (Disabled: internal error)'')]
                \<and> m_model s' = m_model s
                \<and> m_reply s' = m_reply s
                \<and> net_replies s' = net_replies s
                \<and> connected s' = connected s)"
proof -
  have eq: "receivedGroupData ext s =
           Some (s\<lparr>m_status := FailedInternalError,
                   emitted := emitted s @
                     [statusChanged (tr ext ''Network Installation. (Disabled: internal error)'')],
                   logged := logged s @ [Warning [Text ''NetInstall data called too early.'']]\<rparr>)"
    unfolding receivedGroupData_too_early [OF assms]
    by (simp add: setStatus_def cWarning_def emit_def status_def Let_def)
  show ?thesis
    unfolding eq by simp
qed

theorem receivedGroupData_too_early_keeps_handle_witness:
  "map_option m_status
     (receivedGroupData example_externals (pending_state (example_reply example_url))) =
     Some FailedInternalError
   \<and> map_option emitted
     (receivedGroupData example_externals (pending_state (example_reply example_url))) =
     Some [statusChanged ''Network Installation. (Disabled: internal error)'']
   \<and> map_option m_status (receivedGroupData example_externals initial_state) =
     Some FailedInternalError"
proof -
  have u: "\<not> reply_isFinished (example_reply example_url)"
    by (simp add: example_reply_def)
  have h1: "m_reply (pending_state (example_reply example_url)) = None
        \<or> (\<exists>h r. m_reply (pending_state (example_reply example_url)) = Some h
              \<and> reply_at (pending_state (example_reply example_url)) h = Some r
              \<and> \<not> reply_isFinished r)"
    using u by (simp add: pending_state_simps)
  have h2: "m_reply initial_state = None
        \<or> (\<exists>h r. m_reply initial_state = Some h
              \<and> reply_at initial_state h = Some r \<and> \<not> reply_isFinished r)"
    by (simp add: initial_state_def)
  have t: "tr example_externals ''Network Installation. (Disabled: internal error)'' =
      ''Network Installation. (Disabled: internal error)''"
    by (simp add: example_externals_def)
  from receivedGroupData_too_early_keeps_handle [OF h1, of example_externals]
    receivedGroupData_too_early_keeps_handle [OF h2, of example_externals]
  show ?thesis
    by (simp add: pending_state_simps t)
qed

text \<open>
  C3 as stated fails: with an unfinished reply the handle is still the outstanding one
  after \<^verbatim>\<open>receivedGroupData\<close>, and its reply object was not given to \<^verbatim>\<open>deleteLater()\<close>.
\<close>

theorem unfinished_handle_not_released:
  "m_reply (pending_state (example_reply example_url)) = Some 0
   \<and> \<not> reply_isFinished (example_reply example_url)
   \<and> \<not> reply_deleted (example_reply example_url)
   \<and> map_option m_reply
        (receivedGroupData example_externals (pending_state (example_reply example_url))) =
       Some (Some 0)
   \<and> map_option net_replies
        (receivedGroupData example_externals (pending_state (example_reply example_url))) =
       Some [example_reply example_url]"
proof -
  have u: "\<not> reply_isFinished (example_reply example_url)"
    and d: "\<not> reply_deleted (example_reply example_url)"
    by (simp_all add: example_reply_def)
  have "m_reply (pending_state (example_reply example_url)) = None
        \<or> (\<exists>h r. m_reply (pending_state (example_reply example_url)) = Some h
              \<and> reply_at (pending_state (example_reply example_url)) h = Some r
              \<and> \<not> reply_isFinished r)"
    using u by (simp add: pending_state_simps)
  from receivedGroupData_too_early [OF this, of example_externals] u d
  show ?thesis
    by (simp add: pending_state_simps setStatus_def cWarning_def emit_def Let_def)
qed

section \<open>Completion of a finished reply\<close>

text \<open>
  C6. When the reply is finished and reports an error, \<^verbatim>\<open>receivedGroupData\<close> returns
  with status \<open>FailedNetworkError\<close>, having emitted one \<^verbatim>\<open>statusChanged\<close> with its
  description and no \<^verbatim>\<open>statusReady\<close>; the model is untouched; a warning and a line with
  the URL and the error text of the reply are in the log; the handle is released.
\<close>

theorem receivedGroupData_network_error:
  assumes "m_reply s = Some h" and "reply_at s h = Some r"
    and "reply_isFinished r" and "reply_error r \<noteq> NoError"
  shows "\<exists>s'. receivedGroupData ext s = Some s'
           \<and> m_status s' = FailedNetworkError
           \<and> emitted s' = emitted s @
                [statusChanged (tr ext ''Network Installation. (Disabled: Unable to fetch package lists, check your network connection)'')]
           \<and> m_model s' = m_model s
           \<and> Warning [Text ''unable to fetch netinstall package lists.''] \<in> set (logged s')
           \<and> Debug [SubEntry, Text ''Request for url: '', Text (url_text (reply_url r)),
                     Text '' failed with: '', Text (reply_errorString r)] \<in> set (logged s')
           \<and> m_reply s' = None
           \<and> reply_at s' h = Some (r\<lparr>reply_deleted := True\<rparr>)"
proof -
  from assms(2) have lt: "h < length (net_replies s)" and r: "net_replies s ! h = r"
    by (simp_all add: reply_at_def split: if_splits)
  show ?thesis
    using assms lt r
    by (simp add: receivedGroupData_def Let_def setStatus_def cDebug_def cWarning_def emit_def
        cqDeleter_def status_def reply_at_def)
qed

theorem receivedGroupData_network_error_witness:
  "map_option m_status (receivedGroupData example_externals (pending_state failed_reply)) =
     Some FailedNetworkError
   \<and> map_option emitted (receivedGroupData example_externals (pending_state failed_reply)) =
     Some [statusChanged ''Network Installation. (Disabled: Unable to fetch package lists, check your network connection)'']
   \<and> map_option m_model (receivedGroupData example_externals (pending_state failed_reply)) =
     Some []
   \<and> map_option m_reply (receivedGroupData example_externals (pending_state failed_reply)) =
     Some None"
proof -
  have t: "\<And>x. tr example_externals x = x"
    by (simp add: example_externals_def)
  from receivedGroupData_network_error
      [OF pending_state_simps(1) pending_state_simps(2) failed_reply_simps(1)
          failed_reply_simps(2), of example_externals]
  show ?thesis
    by (auto simp add: pending_state_simps t)
qed

lemma receivedGroupData_no_error:
  assumes "m_reply s = Some h" and "reply_at s h = Some r"
    and "reply_isFinished r" and "reply_error r = NoError"
  shows "receivedGroupData ext s =
    Some (cqDeleter
      (case receivedGroupData_try ext (reply_data r)
              (readAll h (cDebug [Text ''NetInstall group data received'',
                                  Number (length (reply_data r)),
                                  Text ''bytes from'', UrlPart (reply_url r)] s)) of
         Inr s3 \<Rightarrow> s3
       | Inl e \<Rightarrow>
           setStatus ext FailedBadData
             (explainYamlException e (reply_data r) ''netinstall groups data''
               (readAll h (cDebug [Text ''NetInstall group data received'',
                                   Number (length (reply_data r)),
                                   Text ''bytes from'', UrlPart (reply_url r)] s)))))"
  using assms by (simp add: receivedGroupData_def Let_def)

text \<open>
  C7. When \<^verbatim>\<open>YAML::Load\<close> throws on the payload, the exception leaves the
  \<^verbatim>\<open>try\<close> block and is caught: \<^verbatim>\<open>receivedGroupData\<close> returns normally, with status
  \<open>FailedBadData\<close>, one \<^verbatim>\<open>statusChanged\<close> with its description and no
  \<^verbatim>\<open>statusReady\<close>, the model untouched, and the exception and the raw payload handed to
  \<^verbatim>\<open>explainYamlException\<close> for the log.
\<close>

theorem receivedGroupData_parser_exception:
  assumes "m_reply s = Some h" and "reply_at s h = Some r"
    and "reply_isFinished r" and "reply_error r = NoError"
    and "YAML_Load ext (constData (reply_data r)) = Inl e"
  shows "receivedGroupData_try ext (reply_data r) s = Inl e
         \<and> (\<exists>s'. receivedGroupData ext s = Some s'
               \<and> m_status s' = FailedBadData
               \<and> emitted s' = emitted s @
                    [statusChanged (tr ext ''Network Installation. (Disabled: Received invalid groups data)'')]
               \<and> m_model s' = m_model s
               \<and> YamlExplanation e (reply_data r) ''netinstall groups data'' \<in> set (logged s'))"
proof -
  have t: "\<And>s0. receivedGroupData_try ext (reply_data r) s0 = Inl e"
    using assms(5) by (simp add: receivedGroupData_try_def)
  show ?thesis
    unfolding receivedGroupData_no_error [OF assms(1-4)] t
    using assms(1)
    by (simp add: setStatus_def explainYamlException_def cDebug_def emit_def cqDeleter_def readAll_def
        status_def Let_def)
qed

theorem receivedGroupData_parser_exception_witness:
  "map_option m_status
     (receivedGroupData example_externals (pending_state (finished_reply ''{''))) =
     Some FailedBadData
   \<and> map_option emitted
     (receivedGroupData example_externals (pending_state (finished_reply ''{''))) =
     Some [statusChanged ''Network Installation. (Disabled: Received invalid groups data)'']
   \<and> map_option m_model
     (receivedGroupData example_externals (pending_state (finished_reply ''{''))) = Some []"
proof -
  have t: "\<And>x. tr example_externals x = x"
    by (simp add: example_externals_def)
  have a: "YAML_Load example_externals (constData (reply_data (finished_reply ''{''))) =
      Inl (YamlException ''bad'' 0 0)"
    by (simp add: finished_reply_simps example_Load_simps)
  from receivedGroupData_parser_exception
      [OF pending_state_simps(1) pending_state_simps(2) finished_reply_simps(1)
          finished_reply_simps(2) a]
  show ?thesis
    by (auto simp add: pending_state_simps t)
qed




end
